theory Spec2Isabelle
  imports Main
begin

section \<open>JavaScript values\<close>

text \<open>
  The values that travel in token claims and in path parameters. \<open>JId i\<close> stands for
  the ObjectId \<open>i\<close> (in a token or a path it is the id's 24-digit hex string);
  \<open>JStr\<close> is any other string.
\<close>

datatype jsval = JUndefined | JNull | JBool bool | JNum int | JStr string | JId nat

text \<open>JavaScript truthiness, as \<open>if (v)\<close> and \<open>!v\<close> read a value.\<close>

fun truthy :: "jsval \<Rightarrow> bool" where
  "truthy JUndefined = False"
| "truthy JNull = False"
| "truthy (JBool b) = b"
| "truthy (JNum n) = (n \<noteq> 0)"
| "truthy (JStr s) = (s \<noteq> [])"
| "truthy (JId i) = True"

text \<open>
  A field of a request body is a string or is missing (\<open>undefined\<close>). The handlers
  test such a field with \<open>if (x)\<close> / \<open>!x\<close>: a missing field and the empty string
  are both falsy.
\<close>

fun present :: "string option \<Rightarrow> bool" where
  "present None = False"
| "present (Some s) = (s \<noteq> [])"

text \<open>\<open>x || d\<close> on a string that may be undefined.\<close>

fun or_default :: "string option \<Rightarrow> string \<Rightarrow> string" where
  "or_default None d = d"
| "or_default (Some s) d = (if s = [] then d else s)"

text \<open>An object of claims: keys with values. A key that is not there reads \<open>undefined\<close>.\<close>

type_synonym claims = "(string \<times> jsval) list"

definition claim :: "claims \<Rightarrow> string \<Rightarrow> jsval" where
  "claim cs k = (case map_of cs k of None \<Rightarrow> JUndefined | Some v \<Rightarrow> v)"

section \<open>Collaborators\<close>

subsection \<open>bcrypt\<close>

text \<open>
  The password hasher is symbolic: a hash records the cost factor, the salt and the
  data it was computed from, and is a different value from every raw string.
  \<open>Raw s\<close> is a password field that holds the string \<open>s\<close> itself.
\<close>

datatype pwvalue = Raw string | Bcrypt nat string string

definition SALT_ROUNDS :: nat where
  "SALT_ROUNDS = 10"

definition bcrypt_hash :: "string \<Rightarrow> string \<Rightarrow> nat \<Rightarrow> pwvalue" where
  "bcrypt_hash slt data rounds = Bcrypt rounds slt data"

fun bcrypt_compare :: "string \<Rightarrow> pwvalue \<Rightarrow> bool" where
  "bcrypt_compare data (Bcrypt rounds slt d) = (d = data)"
| "bcrypt_compare data (Raw h) = False"

subsection \<open>The customer collection\<close>

text \<open>
  Modelled from the spec: the Customer schema (\<open>models/customer.model\<close>, which the
  controller requires) with the fields of the spec's data model. The collection is the
  list of its documents in insertion order; the store hands out ids from a counter.
\<close>

record customer =
  cid :: nat
  email :: string
  username :: string
  password :: pwvalue
  phone :: "string option"
  image :: "string option"
  createdAt :: nat

record store =
  docs :: "customer list"
  next_id :: nat

datatype store_error = CastError

text \<open>\<open>Customer.findOne(q)\<close>: the first document that matches.\<close>

definition findOne :: "(customer \<Rightarrow> bool) \<Rightarrow> store \<Rightarrow> customer option" where
  "findOne q st = List.find q (docs st)"

text \<open>
  \<open>Customer.findById(v)\<close>: \<open>undefined\<close> and \<open>null\<close> match nothing, a value
  that is not an ObjectId throws a cast error.
\<close>

fun findById :: "store \<Rightarrow> jsval \<Rightarrow> store_error + customer option" where
  "findById st (JId i) = Inr (List.find (\<lambda>c. cid c = i) (docs st))"
| "findById st JUndefined = Inr None"
| "findById st JNull = Inr None"
| "findById st (JBool b) = Inl CastError"
| "findById st (JNum n) = Inl CastError"
| "findById st (JStr s) = Inl CastError"

text \<open>\<open>Customer.create({email, username, password, image: null})\<close>.\<close>

definition create :: "store \<Rightarrow> string \<Rightarrow> string \<Rightarrow> pwvalue \<Rightarrow> nat \<Rightarrow> customer \<times> store" where
  "create st e u h t =
     (let new = \<lparr>cid = next_id st, email = e, username = u, password = h,
                 phone = None, image = None, createdAt = t\<rparr>
      in (new, \<lparr>docs = docs st @ [new], next_id = Suc (next_id st)\<rparr>))"

text \<open>\<open>document.save()\<close>: the stored document with the same id is replaced.\<close>

fun replace_doc :: "customer \<Rightarrow> customer list \<Rightarrow> customer list" where
  "replace_doc c [] = []"
| "replace_doc c (d # ds) = (if cid d = cid c then c # ds else d # replace_doc c ds)"

definition save :: "store \<Rightarrow> customer \<Rightarrow> store" where
  "save st c = st\<lparr>docs := replace_doc c (docs st)\<rparr>"

text \<open>\<open>Customer.findByIdAndDelete(v)\<close>: the document found, and the store without it.\<close>

fun delete_doc :: "nat \<Rightarrow> customer list \<Rightarrow> customer list" where
  "delete_doc i [] = []"
| "delete_doc i (d # ds) = (if cid d = i then ds else d # delete_doc i ds)"

fun findByIdAndDelete :: "store \<Rightarrow> jsval \<Rightarrow> store_error + (customer option \<times> store)" where
  "findByIdAndDelete st (JId i) =
     Inr (List.find (\<lambda>c. cid c = i) (docs st), st\<lparr>docs := delete_doc i (docs st)\<rparr>)"
| "findByIdAndDelete st JUndefined = Inr (None, st)"
| "findByIdAndDelete st JNull = Inr (None, st)"
| "findByIdAndDelete st (JBool b) = Inl CastError"
| "findByIdAndDelete st (JNum n) = Inl CastError"
| "findByIdAndDelete st (JStr s) = Inl CastError"

subsection \<open>jsonwebtoken\<close>

text \<open>
  A token is its payload and the secret it was signed with. \<open>jwt.sign\<close> throws when
  the secret is falsy or when \<open>expiresIn\<close> is no timespan; otherwise it drops the
  undefined claims and adds \<open>iat\<close> and \<open>exp\<close>. The reading of timespan strings
  (\<open>"7d"\<close>, \<open>"1h"\<close>, ...) in seconds is the parameter \<open>sp\<close>.
\<close>

record token =
  payload :: claims
  signed_with :: string

datatype jwt_error = SecretMissing | BadTimespan | InvalidSignature | Expired

definition jwt_sign ::
  "(string \<Rightarrow> nat option) \<Rightarrow> nat \<Rightarrow> claims \<Rightarrow> string option \<Rightarrow> string \<Rightarrow> jwt_error + token" where
  "jwt_sign sp t cs secret expiresIn =
     (case secret of
        None \<Rightarrow> Inl SecretMissing
      | Some k \<Rightarrow>
          if k = [] then Inl SecretMissing
          else (case sp expiresIn of
              None \<Rightarrow> Inl BadTimespan
            | Some d \<Rightarrow>
                Inr \<lparr>payload = filter (\<lambda>kv. snd kv \<noteq> JUndefined) cs
                                 @ [(''iat'', JNum (int t)), (''exp'', JNum (int (t + d)))],
                     signed_with = k\<rparr>))"

definition jwt_verify :: "nat \<Rightarrow> token \<Rightarrow> string \<Rightarrow> jwt_error + claims" where
  "jwt_verify t tok secret =
     (if signed_with tok \<noteq> secret then Inl InvalidSignature
      else case claim (payload tok) ''exp'' of
        JNum e \<Rightarrow> if e \<le> int t then Inl Expired else Inr (payload tok)
      | _ \<Rightarrow> Inr (payload tok))"

section \<open>The controller\<close>

text \<open>
  What a handler reads besides the request and the collection: the two environment
  variables, the timespan reading of jsonwebtoken, the clock (seconds), the salt bcrypt
  draws, and the image host (\<open>None\<close>: the upload calls back with an error;
  \<open>Some url\<close>: its \<open>secure_url\<close>).
\<close>

record ambient =
  env_JWT_SECRET :: "string option"
  env_JWT_EXPIRES :: "string option"
  span :: "string \<Rightarrow> nat option"
  now :: nat
  salt :: string
  upload_stream :: "string \<Rightarrow> string option"

definition JWT_SECRET :: "ambient \<Rightarrow> string" where
  "JWT_SECRET w = or_default (env_JWT_SECRET w) ''your-secret-key''"

definition JWT_EXPIRES :: "ambient \<Rightarrow> string" where
  "JWT_EXPIRES w = or_default (env_JWT_EXPIRES w) ''7d''"

definition uploadToCloudinary :: "ambient \<Rightarrow> string \<Rightarrow> string option" where
  "uploadToCloudinary w fileBuffer = upload_stream w fileBuffer"

text \<open>
  The request: the bearer token of the authorization header, the path parameter
  \<open>:id\<close>, the body fields, the uploaded file's buffer, and the two places where
  middleware leaves an identity (\<open>req.customer\<close>, \<open>req.user\<close>).
\<close>

record request =
  authorization :: "token option"
  params_id :: jsval
  body_email :: "string option"
  body_username :: "string option"
  body_password :: "string option"
  body_phone :: "string option"
  file_buffer :: "string option"
  req_customer :: "claims option"
  req_user :: "claims option"

text \<open>The JSON bodies the handlers send, one constructor per shape of object literal.\<close>

record reg_summary =
  rs_id :: nat
  rs_email :: string
  rs_username :: string
  rs_image :: "string option"

record profile =
  pf_customer_id :: nat
  pf_email :: string
  pf_username :: string
  pf_phone :: "string option"
  pf_image :: "string option"

record profile_view =
  pv_customer_id :: nat
  pv_email :: string
  pv_username :: string
  pv_phone :: "string option"
  pv_image :: "string option"
  pv_createdAt :: nat

datatype body =
    Message string
  | ErrorMsg string
  | RegisterOk string token reg_summary
  | LoginOk string profile token
  | ProfileOk profile_view
  | UpdateOk string profile
  | ListOk "customer list"
  | NoBody

record reply =
  status :: nat
  body :: body

definition opt_str :: "string option \<Rightarrow> jsval" where
  "opt_str x = (case x of None \<Rightarrow> JUndefined | Some s \<Rightarrow> JStr s)"

definition opt_null :: "string option \<Rightarrow> jsval" where
  "opt_null x = (case x of None \<Rightarrow> JNull | Some s \<Rightarrow> JStr s)"

definition profile_of :: "customer \<Rightarrow> profile" where
  "profile_of c = \<lparr>pf_customer_id = cid c, pf_email = email c, pf_username = username c,
                   pf_phone = phone c, pf_image = image c\<rparr>"

subsection \<open>register\<close>

definition register :: "ambient \<Rightarrow> store \<Rightarrow> request \<Rightarrow> reply \<times> store" where
  "register w st req =
     (case (body_email req, body_username req, body_password req) of
        (Some e, Some u, Some p) \<Rightarrow>
          if e = [] \<or> u = [] \<or> p = []
          then (\<lparr>status = 400, body = Message ''All fields are required''\<rparr>, st)
          else (case findOne (\<lambda>c. email c = e \<or> username c = u) st of
              Some ex \<Rightarrow> (\<lparr>status = 409, body = Message ''Customer already exists''\<rparr>, st)
            | None \<Rightarrow>
                (let hashedPassword = bcrypt_hash (salt w) p SALT_ROUNDS;
                     (newCustomer, st') = create st e u hashedPassword (now w)
                 in case jwt_sign (span w) (now w)
                           [(''id'', JId (cid newCustomer)), (''email'', JStr (email newCustomer))]
                           (env_JWT_SECRET w) ''7d'' of
                      Inl err \<Rightarrow> (\<lparr>status = 500, body = Message ''Server error''\<rparr>, st')
                    | Inr tok \<Rightarrow>
                        (\<lparr>status = 201,
                          body = RegisterOk ''Registration successful'' tok
                                   \<lparr>rs_id = cid newCustomer, rs_email = email newCustomer,
                                    rs_username = username newCustomer,
                                    rs_image = image newCustomer\<rparr>\<rparr>, st')))
      | _ \<Rightarrow> (\<lparr>status = 400, body = Message ''All fields are required''\<rparr>, st))"

subsection \<open>login\<close>

definition login :: "ambient \<Rightarrow> store \<Rightarrow> request \<Rightarrow> reply \<times> store" where
  "login w st req =
     (case (body_email req, body_password req) of
        (Some e, Some p) \<Rightarrow>
          if e = [] \<or> p = []
          then (\<lparr>status = 400, body = Message ''Email and password required''\<rparr>, st)
          else (case findOne (\<lambda>c. email c = e) st of
              None \<Rightarrow> (\<lparr>status = 401, body = Message ''Invalid email or password''\<rparr>, st)
            | Some c \<Rightarrow>
                if \<not> bcrypt_compare p (password c)
                then (\<lparr>status = 401, body = Message ''Invalid email or password''\<rparr>, st)
                else (case jwt_sign (span w) (now w)
                             [(''customer_id'', JId (cid c)), (''email'', JStr (email c)),
                              (''username'', JStr (username c)), (''phone'', opt_str (phone c)),
                              (''image'', opt_null (image c))]
                             (Some (JWT_SECRET w)) (JWT_EXPIRES w) of
                        Inl err \<Rightarrow> (\<lparr>status = 500, body = ErrorMsg ''Internal server error''\<rparr>, st)
                      | Inr tok \<Rightarrow>
                          (\<lparr>status = 200, body = LoginOk ''Login successful'' (profile_of c) tok\<rparr>, st)))
      | _ \<Rightarrow> (\<lparr>status = 400, body = Message ''Email and password required''\<rparr>, st))"

subsection \<open>getProfile\<close>

definition getProfile :: "store \<Rightarrow> request \<Rightarrow> reply \<times> store" where
  "getProfile st req =
     (case req_customer req of
        None \<Rightarrow> (\<lparr>status = 500, body = ErrorMsg ''Internal server error''\<rparr>, st)
      | Some ident \<Rightarrow>
          (case findById st (claim ident ''customer_id'') of
             Inl err \<Rightarrow> (\<lparr>status = 500, body = ErrorMsg ''Internal server error''\<rparr>, st)
           | Inr None \<Rightarrow> (\<lparr>status = 404, body = Message ''Customer not found''\<rparr>, st)
           | Inr (Some c) \<Rightarrow>
               (\<lparr>status = 200,
                 body = ProfileOk \<lparr>pv_customer_id = cid c, pv_email = email c,
                                   pv_username = username c, pv_phone = phone c,
                                   pv_image = image c, pv_createdAt = createdAt c\<rparr>\<rparr>, st)))"

subsection \<open>update\<close>

text \<open>The four guarded assignments of the handler, in its order, on the document read.\<close>

definition apply_patch :: "ambient \<Rightarrow> request \<Rightarrow> customer \<Rightarrow> customer" where
  "apply_patch w req c =
     (let c1 = (case body_password req of
                  Some p \<Rightarrow> if p \<noteq> [] then c\<lparr>password := bcrypt_hash (salt w) p SALT_ROUNDS\<rparr> else c
                | None \<Rightarrow> c);
          c2 = (case body_username req of
                  Some u \<Rightarrow> if u \<noteq> [] then c1\<lparr>username := u\<rparr> else c1
                | None \<Rightarrow> c1);
          c3 = (case body_email req of
                  Some e \<Rightarrow> if e \<noteq> [] then c2\<lparr>email := e\<rparr> else c2
                | None \<Rightarrow> c2)
      in (case body_phone req of
            Some ph \<Rightarrow> if ph \<noteq> [] then c3\<lparr>phone := Some ph\<rparr> else c3
          | None \<Rightarrow> c3))"

definition update_reply :: "customer \<Rightarrow> reply" where
  "update_reply c = \<lparr>status = 200, body = UpdateOk ''Profile updated successfully'' (profile_of c)\<rparr>"

definition update :: "ambient \<Rightarrow> store \<Rightarrow> request \<Rightarrow> reply \<times> store" where
  "update w st req =
     (case findById st (params_id req) of
        Inl err \<Rightarrow> (\<lparr>status = 500, body = ErrorMsg ''Internal server error''\<rparr>, st)
      | Inr None \<Rightarrow> (\<lparr>status = 404, body = Message ''Customer not found''\<rparr>, st)
      | Inr (Some c) \<Rightarrow>
          (let c' = apply_patch w req c
           in case file_buffer req of
                None \<Rightarrow> (update_reply c', save st c')
              | Some buf \<Rightarrow>
                  (case uploadToCloudinary w buf of
                     None \<Rightarrow> (\<lparr>status = 500, body = ErrorMsg ''Internal server error''\<rparr>, st)
                   | Some cloudinaryUrl \<Rightarrow>
                       (update_reply (c'\<lparr>image := Some cloudinaryUrl\<rparr>),
                        save st (c'\<lparr>image := Some cloudinaryUrl\<rparr>)))))"

subsection \<open>deleteProfile\<close>

definition deleteProfile :: "store \<Rightarrow> request \<Rightarrow> reply \<times> store" where
  "deleteProfile st req =
     (case findByIdAndDelete st (params_id req) of
        Inl err \<Rightarrow> (\<lparr>status = 500, body = ErrorMsg ''Internal server error''\<rparr>, st)
      | Inr (None, st') \<Rightarrow> (\<lparr>status = 404, body = Message ''Customer not found''\<rparr>, st')
      | Inr (Some c, st') \<Rightarrow> (\<lparr>status = 200, body = Message ''Profile deleted successfully''\<rparr>, st'))"

subsection \<open>getAll\<close>

text \<open>\<open>req.user?.is_admin\<close>: undefined when \<open>req.user\<close> is.\<close>

definition is_admin :: "request \<Rightarrow> jsval" where
  "is_admin req = (case req_user req of None \<Rightarrow> JUndefined | Some u \<Rightarrow> claim u ''is_admin'')"

definition getAll :: "store \<Rightarrow> request \<Rightarrow> reply \<times> store" where
  "getAll st req =
     (if \<not> truthy (is_admin req)
      then (\<lparr>status = 403, body = ErrorMsg ''Access denied''\<rparr>, st)
      else (\<lparr>status = 200, body = ListOk (docs st)\<rparr>, st))"

section \<open>The router and its middleware\<close>

text \<open>
  A gate either stops the request with a status or passes it on, changed. The router
  takes the gate it chains before a handler as a parameter. On the PUT route
  \<open>upload.single("image")\<close> stands between the gate and the handler; it is what fills
  \<open>file_buffer\<close> and the body fields of the request.
\<close>

datatype gate_error = Unauthorized | Forbidden

fun gate_status :: "gate_error \<Rightarrow> nat" where
  "gate_status Unauthorized = 401"
| "gate_status Forbidden = 403"

type_synonym gate = "request \<Rightarrow> gate_error + request"

definition route_get_profile :: "gate \<Rightarrow> store \<Rightarrow> request \<Rightarrow> reply \<times> store" where
  "route_get_profile g st req =
     (case g req of
        Inl e \<Rightarrow> (\<lparr>status = gate_status e, body = NoBody\<rparr>, st)
      | Inr req' \<Rightarrow> getProfile st req')"

definition route_put_profile :: "gate \<Rightarrow> ambient \<Rightarrow> store \<Rightarrow> request \<Rightarrow> reply \<times> store" where
  "route_put_profile g w st req =
     (case g req of
        Inl e \<Rightarrow> (\<lparr>status = gate_status e, body = NoBody\<rparr>, st)
      | Inr req' \<Rightarrow> update w st req')"

definition route_delete_profile :: "gate \<Rightarrow> store \<Rightarrow> request \<Rightarrow> reply \<times> store" where
  "route_delete_profile g st req =
     (case g req of
        Inl e \<Rightarrow> (\<lparr>status = gate_status e, body = NoBody\<rparr>, st)
      | Inr req' \<Rightarrow> deleteProfile st req')"

text \<open>
  Modelled from the spec: the Auth Gate (\<open>middleware/authMiddleware\<close>, which the
  router requires). It reads the bearer token, verifies it against the shared secret
  and the clock, and attaches the decoded claims to the request as \<open>req.customer\<close>;
  a missing token and every verification failure stop the request as unauthorized.
\<close>

definition authenticateToken :: "ambient \<Rightarrow> gate" where
  "authenticateToken w req =
     (case authorization req of
        None \<Rightarrow> Inl Unauthorized
      | Some tok \<Rightarrow>
          (case jwt_verify (now w) tok (JWT_SECRET w) of
             Inl err \<Rightarrow> Inl Unauthorized
           | Inr decoded \<Rightarrow> Inr (req\<lparr>req_customer := Some decoded\<rparr>)))"

section \<open>Example data\<close>

text \<open>
  Two deployments (one with both environment variables set, one with neither), a
  reading of two timespans, an image host that refuses one buffer, and a collection of
  two customers; then a third customer, carol, as register creates her in the first
  deployment, with the token register issues for her and the one login does.
\<close>

definition timespans :: "string \<Rightarrow> nat option" where
  "timespans s = (if s = ''7d'' then Some 604800 else if s = ''1h'' then Some 3600 else None)"

definition image_host :: "string \<Rightarrow> string option" where
  "image_host buf = (if buf = ''bad'' then None else Some (''https://img/'' @ buf))"

definition dev :: ambient where
  "dev = \<lparr>env_JWT_SECRET = Some ''s3cret'', env_JWT_EXPIRES = Some ''1h'', span = timespans,
          now = 1000, salt = ''NaCl'', upload_stream = image_host\<rparr>"

definition unconfigured :: ambient where
  "unconfigured = \<lparr>env_JWT_SECRET = None, env_JWT_EXPIRES = None, span = timespans,
          now = 1000, salt = ''NaCl'', upload_stream = image_host\<rparr>"

definition blank :: request where
  "blank = \<lparr>authorization = None, params_id = JUndefined, body_email = None,
            body_username = None, body_password = None, body_phone = None, file_buffer = None,
            req_customer = None, req_user = None\<rparr>"

definition alice :: customer where
  "alice = \<lparr>cid = 0, email = ''a@x.io'', username = ''alice'',
            password = Bcrypt 10 ''salt0'' ''wonder'', phone = Some ''0100'', image = None,
            createdAt = 900\<rparr>"

definition bob :: customer where
  "bob = \<lparr>cid = 1, email = ''b@x.io'', username = ''bob'',
          password = Bcrypt 10 ''salt1'' ''builder'', phone = None,
          image = Some ''https://img/bob'', createdAt = 950\<rparr>"

definition shop :: store where
  "shop = \<lparr>docs = [alice, bob], next_id = 2\<rparr>"

definition carol_req :: request where
  "carol_req = blank\<lparr>body_email := Some ''c@x.io'', body_username := Some ''carol'',
                     body_password := Some ''pw''\<rparr>"

definition carol :: customer where
  "carol = \<lparr>cid = 2, email = ''c@x.io'', username = ''carol'', password = Bcrypt 10 ''NaCl'' ''pw'',
            phone = None, image = None, createdAt = 1000\<rparr>"

definition carol_register_token :: token where
  "carol_register_token =
     \<lparr>payload = [(''id'', JId 2), (''email'', JStr ''c@x.io''), (''iat'', JNum 1000),
                 (''exp'', JNum 605800)],
      signed_with = ''s3cret''\<rparr>"

definition carol_login_token :: token where
  "carol_login_token =
     \<lparr>payload = [(''customer_id'', JId 2), (''email'', JStr ''c@x.io''),
                 (''username'', JStr ''carol''), (''image'', JNull), (''iat'', JNum 1000),
                 (''exp'', JNum 4600)],
      signed_with = ''s3cret''\<rparr>"

definition shop3 :: store where
  "shop3 = \<lparr>docs = [alice, bob, carol], next_id = 3\<rparr>"

lemmas ex_defs =
  timespans_def image_host_def dev_def unconfigured_def blank_def alice_def bob_def shop_def
  carol_req_def carol_def carol_register_token_def carol_login_token_def shop3_def

lemmas eval_defs =
  register_def login_def route_get_profile_def route_put_profile_def route_delete_profile_def
  authenticateToken_def getProfile_def update_def deleteProfile_def
  jwt_sign_def jwt_verify_def claim_def findOne_def create_def save_def JWT_SECRET_def
  JWT_EXPIRES_def SALT_ROUNDS_def bcrypt_hash_def opt_str_def opt_null_def profile_of_def
  apply_patch_def update_reply_def uploadToCloudinary_def Let_def

section \<open>Facts about the collection\<close>

lemma find_no_match: "(\<forall>c\<in>set xs. \<not> P c) \<Longrightarrow> List.find P xs = None"
  by (induction xs) auto

lemma find_some_match:
  "\<exists>c\<in>set xs. P c \<Longrightarrow> \<exists>y. List.find P xs = Some y \<and> P y \<and> y \<in> set xs"
  by (induction xs) auto

lemma find_cid: "List.find (\<lambda>d. cid d = i) xs = Some c \<Longrightarrow> cid c = i"
  by (induction xs) (auto split: if_splits)

lemma find_replace_same:
  "List.find (\<lambda>d. cid d = cid c) xs = Some d0 \<Longrightarrow>
   List.find (\<lambda>d. cid d = cid c) (replace_doc c xs) = Some c"
  by (induction xs) (auto split: if_splits)

lemma find_replace_other:
  "j \<noteq> cid c \<Longrightarrow>
   List.find (\<lambda>d. cid d = j) (replace_doc c xs) = List.find (\<lambda>d. cid d = j) xs"
  by (induction xs) auto

lemma findById_found:
  "findById st v = Inr (Some c) \<Longrightarrow>
   v = JId (cid c) \<and> List.find (\<lambda>d. cid d = cid c) (docs st) = Some c"
  by (cases v) (auto dest: find_cid)

lemma findById_save:
  assumes "findById st v = Inr (Some c)" "cid c' = cid c"
  shows "findById (save st c') v = Inr (Some c')"
proof -
  from findById_found [OF assms(1)]
  have v: "v = JId (cid c')" and f: "List.find (\<lambda>d. cid d = cid c') (docs st) = Some c"
    using assms(2) by simp_all
  from find_replace_same [OF f] show ?thesis
    by (simp add: v save_def)
qed

lemma findById_save_other:
  "j \<noteq> cid c' \<Longrightarrow> findById (save st c') (JId j) = findById st (JId j)"
  by (simp add: save_def find_replace_other)

lemma find_Some_mem: "List.find P xs = Some c \<Longrightarrow> c \<in> set xs \<and> P c"
  by (induction xs) (auto split: if_splits)

section \<open>Facts about update and deleteProfile\<close>

lemma cid_apply_patch: "cid (apply_patch w req c) = cid c"
  by (simp add: apply_patch_def Let_def split: option.splits)

lemma createdAt_apply_patch: "createdAt (apply_patch w req c) = createdAt c"
  by (simp add: apply_patch_def Let_def split: option.splits)

lemma image_apply_patch: "image (apply_patch w req c) = image c"
  by (simp add: apply_patch_def Let_def split: option.splits)

lemma email_apply_patch:
  "email (apply_patch w req c) =
     (if present (body_email req) then the (body_email req) else email c)"
  by (cases "body_email req") (simp_all add: apply_patch_def Let_def split: option.splits)

lemma username_apply_patch:
  "username (apply_patch w req c) =
     (if present (body_username req) then the (body_username req) else username c)"
  by (cases "body_username req") (simp_all add: apply_patch_def Let_def split: option.splits)

lemma phone_apply_patch:
  "phone (apply_patch w req c) = (if present (body_phone req) then body_phone req else phone c)"
  by (cases "body_phone req") (simp_all add: apply_patch_def Let_def split: option.splits)

lemma password_apply_patch:
  "password (apply_patch w req c) =
     (if present (body_password req)
      then bcrypt_hash (salt w) (the (body_password req)) SALT_ROUNDS else password c)"
  by (cases "body_password req") (simp_all add: apply_patch_def Let_def split: option.splits)

lemma update_no_file:
  assumes "findById st (params_id req) = Inr (Some c)" "file_buffer req = None"
  shows "update w st req = (update_reply (apply_patch w req c), save st (apply_patch w req c))"
  using assms by (simp add: update_def Let_def)

lemma update_upload_failed:
  assumes "findById st (params_id req) = Inr (Some c)" "file_buffer req = Some buf"
    "upload_stream w buf = None"
  shows "update w st req = (\<lparr>status = 500, body = ErrorMsg ''Internal server error''\<rparr>, st)"
  using assms by (simp add: update_def uploadToCloudinary_def)

lemma update_uploaded:
  assumes "findById st (params_id req) = Inr (Some c)" "file_buffer req = Some buf"
    "upload_stream w buf = Some url"
  shows "update w st req = (update_reply ((apply_patch w req c)\<lparr>image := Some url\<rparr>),
                            save st ((apply_patch w req c)\<lparr>image := Some url\<rparr>))"
  using assms by (simp add: update_def uploadToCloudinary_def Let_def)

text \<open>After a successful update the collection holds the patched document under the same id.\<close>

lemma update_stored:
  assumes found: "findById st (params_id req) = Inr (Some c)"
    and ok: "status (fst (update w st req)) = 200"
  shows "\<exists>c'. findById (snd (update w st req)) (params_id req) = Inr (Some c')
            \<and> cid c' = cid c \<and> createdAt c' = createdAt c
            \<and> email c' = email (apply_patch w req c)
            \<and> username c' = username (apply_patch w req c)
            \<and> password c' = password (apply_patch w req c)
            \<and> phone c' = phone (apply_patch w req c)
            \<and> (file_buffer req = None \<longrightarrow> image c' = image c)"
proof (cases "file_buffer req")
  case None
  let ?c = "apply_patch w req c"
  have "findById (save st ?c) (params_id req) = Inr (Some ?c)"
    by (rule findById_save [OF found]) (simp add: cid_apply_patch)
  then show ?thesis
    using None
    by (simp add: update_no_file [OF found None] cid_apply_patch createdAt_apply_patch
        image_apply_patch)
next
  case (Some buf)
  show ?thesis
  proof (cases "upload_stream w buf")
    case None
    with ok show ?thesis
      by (simp add: update_upload_failed [OF found Some None])
  next
    case (Some url)
    let ?c = "(apply_patch w req c)\<lparr>image := Some url\<rparr>"
    have "findById (save st ?c) (params_id req) = Inr (Some ?c)"
      by (rule findById_save [OF found]) (simp add: cid_apply_patch)
    then show ?thesis
      using \<open>file_buffer req = Some buf\<close>
      by (simp add: update_uploaded [OF found \<open>file_buffer req = Some buf\<close> Some]
          cid_apply_patch createdAt_apply_patch)
  qed
qed

lemma apply_patch_ident: "apply_patch w (req\<lparr>req_customer := x\<rparr>) c = apply_patch w req c"
  by (simp add: apply_patch_def)

lemma deleteProfile_by_id:
  assumes "params_id req = JId i"
  shows "deleteProfile st req =
     (if \<exists>c\<in>set (docs st). cid c = i
      then \<lparr>status = 200, body = Message ''Profile deleted successfully''\<rparr>
      else \<lparr>status = 404, body = Message ''Customer not found''\<rparr>,
      st\<lparr>docs := delete_doc i (docs st)\<rparr>)"
proof (cases "List.find (\<lambda>c. cid c = i) (docs st)")
  case None
  then have "\<not> (\<exists>c\<in>set (docs st). cid c = i)"
    by (simp add: find_None_iff)
  with None assms show ?thesis
    by (simp add: deleteProfile_def)
next
  case (Some c)
  then have "\<exists>c\<in>set (docs st). cid c = i"
    by (auto dest: find_Some_mem)
  with Some assms show ?thesis
    by (simp add: deleteProfile_def)
qed

section \<open>Facts about tokens, register and login\<close>

lemma or_default_nonempty: "d \<noteq> [] \<Longrightarrow> or_default x d \<noteq> []"
  by (cases x) auto

lemma JWT_SECRET_nonempty: "JWT_SECRET w \<noteq> []"
  by (simp add: JWT_SECRET_def or_default_nonempty)

lemma JWT_SECRET_configured: "present (env_JWT_SECRET w) \<Longrightarrow> env_JWT_SECRET w = Some (JWT_SECRET w)"
  by (cases "env_JWT_SECRET w") (auto simp: JWT_SECRET_def)

lemma jwt_sign_ok:
  "jwt_sign sp t cs secret ttl = Inr tok \<Longrightarrow>
   secret = Some (signed_with tok) \<and> signed_with tok \<noteq> []
   \<and> (\<exists>d. sp ttl = Some d
        \<and> payload tok = filter (\<lambda>kv. snd kv \<noteq> JUndefined) cs
                          @ [(''iat'', JNum (int t)), (''exp'', JNum (int (t + d)))])"
  by (auto simp: jwt_sign_def split: if_splits option.splits)

lemma jwt_sign_no_secret: "\<not> present secret \<Longrightarrow> jwt_sign sp t cs secret ttl = Inl SecretMissing"
  by (cases secret) (simp_all add: jwt_sign_def)



text \<open>register by the path it takes, and what a 201 of register and a 200 of login tell.\<close>

lemma register_rejected:
  assumes "\<not> (present (body_email req) \<and> present (body_username req) \<and> present (body_password req))"
  shows "register w st req = (\<lparr>status = 400, body = Message ''All fields are required''\<rparr>, st)"
  using assms
  by (cases "body_email req"; cases "body_username req"; cases "body_password req")
     (auto simp: register_def)

lemma register_exists:
  assumes "body_email req = Some e" "e \<noteq> []" "body_username req = Some u" "u \<noteq> []"
    "body_password req = Some p" "p \<noteq> []"
    "findOne (\<lambda>c. email c = e \<or> username c = u) st = Some ex"
  shows "register w st req = (\<lparr>status = 409, body = Message ''Customer already exists''\<rparr>, st)"
  using assms by (simp add: register_def)

lemma register_creates:
  assumes "body_email req = Some e" "e \<noteq> []" "body_username req = Some u" "u \<noteq> []"
    "body_password req = Some p" "p \<noteq> []"
    "findOne (\<lambda>c. email c = e \<or> username c = u) st = None"
  shows "register w st req =
     (case jwt_sign (span w) (now w) [(''id'', JId (next_id st)), (''email'', JStr e)]
             (env_JWT_SECRET w) ''7d'' of
        Inl err \<Rightarrow> \<lparr>status = 500, body = Message ''Server error''\<rparr>
      | Inr tok \<Rightarrow> \<lparr>status = 201, body = RegisterOk ''Registration successful'' tok
                      \<lparr>rs_id = next_id st, rs_email = e, rs_username = u, rs_image = None\<rparr>\<rparr>,
      \<lparr>docs = docs st @ [\<lparr>cid = next_id st, email = e, username = u,
                            password = bcrypt_hash (salt w) p SALT_ROUNDS, phone = None,
                            image = None, createdAt = now w\<rparr>],
        next_id = Suc (next_id st)\<rparr>)"
  using assms by (simp add: register_def create_def Let_def split: sum.splits)

lemma register_cases:
  obtains (rejected) "register w st req = (\<lparr>status = 400, body = Message ''All fields are required''\<rparr>, st)"
  | (exists) "register w st req = (\<lparr>status = 409, body = Message ''Customer already exists''\<rparr>, st)"
  | (creates) e u p where "body_email req = Some e" "e \<noteq> []" "body_username req = Some u" "u \<noteq> []"
      "body_password req = Some p" "p \<noteq> []"
      "findOne (\<lambda>c. email c = e \<or> username c = u) st = None"
proof (cases "present (body_email req) \<and> present (body_username req) \<and> present (body_password req)")
  case False
  then show ?thesis by (intro rejected register_rejected)
next
  case True
  then obtain e u p where f: "body_email req = Some e" "e \<noteq> []" "body_username req = Some u"
      "u \<noteq> []" "body_password req = Some p" "p \<noteq> []"
    by (cases "body_email req"; cases "body_username req"; cases "body_password req") auto
  show ?thesis
  proof (cases "findOne (\<lambda>c. email c = e \<or> username c = u) st")
    case None
    with f show ?thesis by (intro creates)
  next
    case (Some ex)
    with f show ?thesis by (intro exists register_exists)
  qed
qed

lemma register_ok:
  assumes "register w st req = (r, st')" "status r = 201"
  shows "\<exists>e u p d tok new.
           body_email req = Some e \<and> body_username req = Some u \<and> body_password req = Some p
         \<and> e \<noteq> [] \<and> u \<noteq> [] \<and> p \<noteq> []
         \<and> new = \<lparr>cid = next_id st, email = e, username = u,
                   password = bcrypt_hash (salt w) p SALT_ROUNDS, phone = None, image = None,
                   createdAt = now w\<rparr>
         \<and> st' = \<lparr>docs = docs st @ [new], next_id = Suc (next_id st)\<rparr>
         \<and> r = \<lparr>status = 201, body = RegisterOk ''Registration successful'' tok
                   \<lparr>rs_id = next_id st, rs_email = e, rs_username = u, rs_image = None\<rparr>\<rparr>
         \<and> env_JWT_SECRET w = Some (signed_with tok) \<and> signed_with tok \<noteq> []
         \<and> span w ''7d'' = Some d
         \<and> payload tok = [(''id'', JId (next_id st)), (''email'', JStr e),
                           (''iat'', JNum (int (now w))), (''exp'', JNum (int (now w + d)))]"
proof (cases rule: register_cases [of w st req])
  case rejected
  with assms(1) have "status r = 400" by auto
  with assms(2) show ?thesis by simp
next
  case exists
  with assms(1) have "status r = 409" by auto
  with assms(2) show ?thesis by simp
next
  case (creates e u p)
  note reg = register_creates [OF creates, of w]
  show ?thesis
  proof (cases "jwt_sign (span w) (now w) [(''id'', JId (next_id st)), (''email'', JStr e)]
                  (env_JWT_SECRET w) ''7d''")
    case (Inl err)
    with reg assms(1) have "status r = 500" by auto
    with assms(2) show ?thesis by simp
  next
    case (Inr tok)
    from jwt_sign_ok [OF Inr] obtain d where
      "env_JWT_SECRET w = Some (signed_with tok)" "signed_with tok \<noteq> []"
      "span w ''7d'' = Some d"
      "payload tok = [(''id'', JId (next_id st)), (''email'', JStr e),
                      (''iat'', JNum (int (now w))), (''exp'', JNum (int (now w + d)))]"
      by auto
    moreover from reg Inr assms(1)
    have "r = \<lparr>status = 201, body = RegisterOk ''Registration successful'' tok
                   \<lparr>rs_id = next_id st, rs_email = e, rs_username = u, rs_image = None\<rparr>\<rparr>"
      and "st' = \<lparr>docs = docs st @ [\<lparr>cid = next_id st, email = e, username = u,
                            password = bcrypt_hash (salt w) p SALT_ROUNDS, phone = None,
                            image = None, createdAt = now w\<rparr>],
                    next_id = Suc (next_id st)\<rparr>"
      by auto
    ultimately show ?thesis using creates by simp
  qed
qed

lemma register_store:
  "snd (register w st req) = st
   \<or> (\<exists>e u p. body_email req = Some e \<and> body_username req = Some u \<and> body_password req = Some p
        \<and> p \<noteq> []
        \<and> snd (register w st req)
          = \<lparr>docs = docs st @ [\<lparr>cid = next_id st, email = e, username = u,
                            password = bcrypt_hash (salt w) p SALT_ROUNDS, phone = None,
                            image = None, createdAt = now w\<rparr>],
             next_id = Suc (next_id st)\<rparr>)"
proof (cases rule: register_cases [of w st req])
  case rejected
  then show ?thesis by simp
next
  case exists
  then show ?thesis by simp
next
  case (creates e u p)
  from register_creates [OF creates, of w] creates show ?thesis by simp
qed

lemma login_ok:
  assumes "login w st req = (r, st')" "status r = 200"
  shows "\<exists>e p c d tok.
           body_email req = Some e \<and> body_password req = Some p
         \<and> findOne (\<lambda>c. email c = e) st = Some c \<and> bcrypt_compare p (password c)
         \<and> st' = st
         \<and> r = \<lparr>status = 200, body = LoginOk ''Login successful'' (profile_of c) tok\<rparr>
         \<and> signed_with tok = JWT_SECRET w
         \<and> span w (JWT_EXPIRES w) = Some d
         \<and> payload tok = filter (\<lambda>kv. snd kv \<noteq> JUndefined)
                            [(''customer_id'', JId (cid c)), (''email'', JStr (email c)),
                             (''username'', JStr (username c)), (''phone'', opt_str (phone c)),
                             (''image'', opt_null (image c))]
                          @ [(''iat'', JNum (int (now w))), (''exp'', JNum (int (now w + d)))]"
proof -
  from assms obtain e p where f: "body_email req = Some e" "body_password req = Some p"
      "e \<noteq> []" "p \<noteq> []"
    by (cases "body_email req"; cases "body_password req")
       (auto simp: login_def split: if_splits)
  from assms f obtain c where c: "findOne (\<lambda>c. email c = e) st = Some c"
      "bcrypt_compare p (password c)"
    by (cases "findOne (\<lambda>c. email c = e) st") (auto simp: login_def split: if_splits)
  let ?cs = "[(''customer_id'', JId (cid c)), (''email'', JStr (email c)),
              (''username'', JStr (username c)), (''phone'', opt_str (phone c)),
              (''image'', opt_null (image c))]"
  show ?thesis
  proof (cases "jwt_sign (span w) (now w) ?cs (Some (JWT_SECRET w)) (JWT_EXPIRES w)")
    case (Inl err)
    with assms(1) f c have "status r = 500" by (auto simp: login_def)
    with assms(2) show ?thesis by simp
  next
    case (Inr tok)
    from jwt_sign_ok [OF Inr] obtain d where
      "signed_with tok = JWT_SECRET w" "span w (JWT_EXPIRES w) = Some d"
      "payload tok = filter (\<lambda>kv. snd kv \<noteq> JUndefined) ?cs
                     @ [(''iat'', JNum (int (now w))), (''exp'', JNum (int (now w + d)))]"
      by auto
    moreover from assms(1) f c Inr
    have "r = \<lparr>status = 200, body = LoginOk ''Login successful'' (profile_of c) tok\<rparr>"
      and "st' = st"
      by (auto simp: login_def)
    ultimately show ?thesis using f c by simp
  qed
qed

text \<open>
  What holds of every registration and login: without \<open>JWT_SECRET\<close> in the
  environment register never answers 201; a token register does issue is signed with
  the variable's value; a token login issues is signed with the variable's value or,
  without one, with the placeholder; and no token of register lets getProfile answer
  200 behind the Auth Gate, whatever the deployment, the collection and the time.
\<close>

lemma register_not_configured:
  assumes "\<not> present (env_JWT_SECRET w)"
  shows "status (fst (register w st req)) \<in> {400, 409, 500}"
proof (cases rule: register_cases [of w st req])
  case rejected
  then show ?thesis by simp
next
  case exists
  then show ?thesis by simp
next
  case (creates e u p)
  from register_creates [OF creates, of w] jwt_sign_no_secret [OF assms]
  show ?thesis by simp
qed

lemma register_signs_with_env:
  assumes "register w st req = (r, st')" "status r = 201" "body r = RegisterOk m tok summ"
  shows "env_JWT_SECRET w = Some (signed_with tok) \<and> signed_with tok = JWT_SECRET w"
proof -
  from register_ok [OF assms(1,2)] assms(3)
  have "env_JWT_SECRET w = Some (signed_with tok)" "signed_with tok \<noteq> []"
    by auto
  then show ?thesis
    by (simp add: JWT_SECRET_def)
qed

lemma login_signs_with_JWT_SECRET:
  assumes "login w st req = (r, st')" "status r = 200" "body r = LoginOk m pr tok"
  shows "signed_with tok = or_default (env_JWT_SECRET w) ''your-secret-key''"
  using login_ok [OF assms(1,2)] assms(3) by (auto simp: JWT_SECRET_def)

lemma register_token_never_resolves:
  assumes "register w st req = (r, st')" "status r = 201" "body r = RegisterOk m tok summ"
    and "authorization rq = Some tok"
  shows "status (fst (route_get_profile (authenticateToken w') st'' rq)) \<in> {401, 404}"
proof -
  from register_ok [OF assms(1,2)] assms(3)
  obtain e d where "payload tok = [(''id'', JId (next_id st)), (''email'', JStr e),
      (''iat'', JNum (int (now w))), (''exp'', JNum (int (now w + d)))]"
    by auto
  then have "claim (payload tok) ''customer_id'' = JUndefined"
    by (simp add: claim_def)
  then show ?thesis
    using assms(4)
    by (auto simp: route_get_profile_def authenticateToken_def getProfile_def jwt_verify_def
        split: sum.splits jsval.splits if_splits)
qed

text \<open>The Auth Gate passes a request on with nothing changed but the identity it attaches.\<close>

lemma authenticateToken_attaches:
  "authenticateToken w req = Inr req' \<Longrightarrow>
   \<exists>tok. authorization req = Some tok \<and> signed_with tok = JWT_SECRET w
       \<and> req' = req\<lparr>req_customer := Some (payload tok)\<rparr>"
  by (auto simp: authenticateToken_def jwt_verify_def split: option.splits sum.splits if_splits jsval.splits)

section \<open>The claims\<close>

text \<open>
  C1: the token register issues, passed through the Auth Gate, should let getProfile
  resolve the customer that registered. It does not. register signs the claims
  \<open>id\<close> and \<open>email\<close>; getProfile looks up \<open>req.customer.customer_id\<close>, which that
  token does not carry, so the lookup finds nobody. Below, carol registers and gets
  her token; the gate accepts it and attaches its claims; getProfile answers 404. The
  token login issues for the same customer carries \<open>customer_id\<close>, and with it
  getProfile answers 200 with her record.
\<close>

theorem register_token_getProfile_not_found:
  "register dev shop carol_req
     = (\<lparr>status = 201,
         body = RegisterOk ''Registration successful'' carol_register_token
                  \<lparr>rs_id = 2, rs_email = ''c@x.io'', rs_username = ''carol'', rs_image = None\<rparr>\<rparr>,
        shop3)
   \<and> authenticateToken dev (blank\<lparr>authorization := Some carol_register_token\<rparr>)
     = Inr (blank\<lparr>authorization := Some carol_register_token,
                   req_customer := Some (payload carol_register_token)\<rparr>)
   \<and> route_get_profile (authenticateToken dev) shop3
        (blank\<lparr>authorization := Some carol_register_token\<rparr>)
     = (\<lparr>status = 404, body = Message ''Customer not found''\<rparr>, shop3)
   \<and> login dev shop3 (blank\<lparr>body_email := Some ''c@x.io'', body_password := Some ''pw''\<rparr>)
     = (\<lparr>status = 200, body = LoginOk ''Login successful'' (profile_of carol) carol_login_token\<rparr>,
        shop3)
   \<and> route_get_profile (authenticateToken dev) shop3
        (blank\<lparr>authorization := Some carol_login_token\<rparr>)
     = (\<lparr>status = 200,
         body = ProfileOk \<lparr>pv_customer_id = 2, pv_email = ''c@x.io'', pv_username = ''carol'',
                           pv_phone = None, pv_image = None, pv_createdAt = 1000\<rparr>\<rparr>, shop3)"
  by (simp add: eval_defs ex_defs)

text \<open>
  C2: register and login should both sign with the configured secret and, when none is
  configured, both with the placeholder. register does not: it hands
  \<open>process.env.JWT_SECRET\<close> to \<open>jwt.sign\<close>, not the constant \<open>JWT_SECRET\<close>
  that carries the default. Below, in the deployment without the variable, register
  answers 500 after it has created the customer, while login succeeds and signs with
  the placeholder.
\<close>

theorem register_unconfigured_secret_fails:
  "env_JWT_SECRET unconfigured = None
   \<and> register unconfigured shop carol_req
     = (\<lparr>status = 500, body = Message ''Server error''\<rparr>, shop3)
   \<and> login unconfigured shop (blank\<lparr>body_email := Some ''a@x.io'', body_password := Some ''wonder''\<rparr>)
     = (\<lparr>status = 200,
         body = LoginOk ''Login successful'' (profile_of alice)
                  \<lparr>payload = [(''customer_id'', JId 0), (''email'', JStr ''a@x.io''),
                               (''username'', JStr ''alice''), (''phone'', JStr ''0100''),
                               (''image'', JNull), (''iat'', JNum 1000), (''exp'', JNum 605800)],
                    signed_with = ''your-secret-key''\<rparr>\<rparr>, shop)"
  by (simp add: eval_defs ex_defs)

text \<open>
  C3: getAll answers 403 exactly when the identity on the request (\<open>req.user\<close>, which
  the handler reads itself) carries no truthy \<open>is_admin\<close>; when it does, the answer
  is the whole collection, each document as stored, its password hash included, and the
  collection is left as it was.
\<close>

theorem getAll_forbidden_iff_not_admin:
  "(status (fst (getAll st req)) = 403) = (\<not> truthy (is_admin req))
   \<and> (\<not> truthy (is_admin req) \<longrightarrow>
        getAll st req = (\<lparr>status = 403, body = ErrorMsg ''Access denied''\<rparr>, st))
   \<and> (truthy (is_admin req) \<longrightarrow>
        getAll st req = (\<lparr>status = 200, body = ListOk (docs st)\<rparr>, st))"
  by (simp add: getAll_def)

theorem getAll_forbidden_iff_not_admin_witness:
  "truthy (is_admin (blank\<lparr>req_user := Some [(''is_admin'', JBool True)]\<rparr>))
   \<and> getAll shop (blank\<lparr>req_user := Some [(''is_admin'', JBool True)]\<rparr>)
       = (\<lparr>status = 200, body = ListOk [alice, bob]\<rparr>, shop)
   \<and> map password [alice, bob] = [Bcrypt 10 ''salt0'' ''wonder'', Bcrypt 10 ''salt1'' ''builder'']
   \<and> \<not> truthy (is_admin (blank\<lparr>req_user := Some [(''email'', JStr ''a@x.io'')]\<rparr>))
   \<and> status (fst (getAll shop (blank\<lparr>req_user := Some [(''email'', JStr ''a@x.io'')]\<rparr>))) = 403"
  using getAll_forbidden_iff_not_admin
          [of shop "blank\<lparr>req_user := Some [(''is_admin'', JBool True)]\<rparr>"]
        getAll_forbidden_iff_not_admin
          [of shop "blank\<lparr>req_user := Some [(''email'', JStr ''a@x.io'')]\<rparr>"]
  by (simp add: is_admin_def claim_def blank_def shop_def alice_def bob_def)

text \<open>
  C4: a login with a non-empty email and password is answered with one and the same
  reply, 401 and the message "Invalid email or password", whether no customer has the
  email or the customer found has a password hash the password does not verify against;
  the collection is left as it was.
\<close>

theorem login_failure_indistinguishable:
  assumes "body_email req = Some e" "e \<noteq> []" "body_password req = Some p" "p \<noteq> []"
    and "(\<forall>c\<in>set (docs st). email c \<noteq> e)
         \<or> (\<exists>c. findOne (\<lambda>c. email c = e) st = Some c \<and> \<not> bcrypt_compare p (password c))"
  shows "login w st req = (\<lparr>status = 401, body = Message ''Invalid email or password''\<rparr>, st)"
proof -
  from assms(5) show ?thesis
  proof
    assume "\<forall>c\<in>set (docs st). email c \<noteq> e"
    then have "findOne (\<lambda>c. email c = e) st = None"
      unfolding findOne_def by (intro find_no_match) simp
    with assms(1-4) show ?thesis by (simp add: login_def)
  next
    assume "\<exists>c. findOne (\<lambda>c. email c = e) st = Some c \<and> \<not> bcrypt_compare p (password c)"
    then obtain c where "findOne (\<lambda>c. email c = e) st = Some c" "\<not> bcrypt_compare p (password c)"
      by (elim exE conjE)
    with assms(1-4) show ?thesis by (simp add: login_def)
  qed
qed

theorem login_failure_indistinguishable_witness:
  "login dev shop (blank\<lparr>body_email := Some ''z@x.io'', body_password := Some ''wonder''\<rparr>)
     = (\<lparr>status = 401, body = Message ''Invalid email or password''\<rparr>, shop)
   \<and> login dev shop (blank\<lparr>body_email := Some ''a@x.io'', body_password := Some ''wrong''\<rparr>)
     = (\<lparr>status = 401, body = Message ''Invalid email or password''\<rparr>, shop)"
  using login_failure_indistinguishable
          [of "blank\<lparr>body_email := Some ''z@x.io'', body_password := Some ''wonder''\<rparr>"
              "''z@x.io''" "''wonder''" shop dev]
        login_failure_indistinguishable
          [of "blank\<lparr>body_email := Some ''a@x.io'', body_password := Some ''wrong''\<rparr>"
              "''a@x.io''" "''wrong''" shop dev]
  by (simp add: findOne_def blank_def shop_def alice_def bob_def)

text \<open>
  C5: on the PUT and DELETE routes of \<open>/profile/:id\<close>, once the gate has let the
  request through with an identity attached, the outcome is that of the handler on the
  request without any identity: neither route nor handler reads it. The document deleted
  is the one with the id of the path, and so is the document updated, whoever the token
  belongs to.
\<close>

theorem no_ownership_check:
  assumes "g req = Inr (req\<lparr>req_customer := Some ident\<rparr>)"
  shows "route_put_profile g w st req = update w st req
       \<and> route_delete_profile g st req = deleteProfile st req
       \<and> (\<forall>i. params_id req = JId i \<longrightarrow>
            snd (route_delete_profile g st req) = st\<lparr>docs := delete_doc i (docs st)\<rparr>
            \<and> (status (fst (route_delete_profile g st req)) = 200) = (\<exists>c\<in>set (docs st). cid c = i))
       \<and> (\<forall>c. findById st (params_id req) = Inr (Some c) \<and> file_buffer req = None \<longrightarrow>
            route_put_profile g w st req
              = (update_reply (apply_patch w req c), save st (apply_patch w req c)))"
proof -
  have u: "update w st (req\<lparr>req_customer := Some ident\<rparr>) = update w st req"
    by (simp add: update_def apply_patch_ident Let_def split: sum.splits option.splits)
  have d: "deleteProfile st (req\<lparr>req_customer := Some ident\<rparr>) = deleteProfile st req"
    by (simp add: deleteProfile_def)
  from assms u have put: "route_put_profile g w st req = update w st req"
    by (simp add: route_put_profile_def)
  from assms d have del: "route_delete_profile g st req = deleteProfile st req"
    by (simp add: route_delete_profile_def)
  show ?thesis
    by (simp add: put del deleteProfile_by_id update_no_file)
qed

theorem no_ownership_check_witness:
  "claim (payload carol_login_token) ''customer_id'' = JId 2
   \<and> authenticateToken dev (blank\<lparr>authorization := Some carol_login_token, params_id := JId 1\<rparr>)
       = Inr (blank\<lparr>authorization := Some carol_login_token, params_id := JId 1,
                     req_customer := Some (payload carol_login_token)\<rparr>)
   \<and> route_delete_profile (authenticateToken dev) shop3
        (blank\<lparr>authorization := Some carol_login_token, params_id := JId 1\<rparr>)
       = (\<lparr>status = 200, body = Message ''Profile deleted successfully''\<rparr>,
          \<lparr>docs = [alice, carol], next_id = 3\<rparr>)
   \<and> route_put_profile (authenticateToken dev) dev shop3
        (blank\<lparr>authorization := Some carol_login_token, params_id := JId 1\<rparr>
              \<lparr>body_password := Some ''mine''\<rparr>)
       = (update_reply (bob\<lparr>password := Bcrypt 10 ''NaCl'' ''mine''\<rparr>),
          \<lparr>docs = [alice, bob\<lparr>password := Bcrypt 10 ''NaCl'' ''mine''\<rparr>, carol], next_id = 3\<rparr>)"
  using no_ownership_check [of "authenticateToken dev"
               "blank\<lparr>authorization := Some carol_login_token, params_id := JId 1\<rparr>"
               "payload carol_login_token" dev shop3]
        no_ownership_check [of "authenticateToken dev"
               "blank\<lparr>authorization := Some carol_login_token, params_id := JId 1\<rparr>
                     \<lparr>body_password := Some ''mine''\<rparr>"
               "payload carol_login_token" dev shop3]
  by (simp add: eval_defs ex_defs)

text \<open>
  C6: when update finds the customer and the upload of the supplied image fails, the
  reply is 500 and the collection is exactly as before: none of the password, username,
  email or phone edits is stored. When the upload succeeds, one save stores the document
  with all the edits and the new image together.
\<close>

theorem update_upload_failure_persists_nothing:
  assumes "findById st (params_id req) = Inr (Some c)" "file_buffer req = Some buf"
  shows "(upload_stream w buf = None \<longrightarrow>
            update w st req = (\<lparr>status = 500, body = ErrorMsg ''Internal server error''\<rparr>, st))
       \<and> (\<forall>url. upload_stream w buf = Some url \<longrightarrow>
            update w st req = (update_reply ((apply_patch w req c)\<lparr>image := Some url\<rparr>),
                               save st ((apply_patch w req c)\<lparr>image := Some url\<rparr>)))"
  using assms by (simp add: update_upload_failed update_uploaded)

theorem update_upload_failure_persists_nothing_witness:
  "findById shop (params_id (blank\<lparr>params_id := JId 0, body_password := Some ''new'',
       body_phone := Some ''0199'', file_buffer := Some ''bad''\<rparr>)) = Inr (Some alice)
   \<and> upload_stream dev ''bad'' = None
   \<and> update dev shop (blank\<lparr>params_id := JId 0, body_password := Some ''new'',
       body_phone := Some ''0199'', file_buffer := Some ''bad''\<rparr>)
       = (\<lparr>status = 500, body = ErrorMsg ''Internal server error''\<rparr>, shop)"
  using update_upload_failure_persists_nothing
          [of shop "blank\<lparr>params_id := JId 0, body_password := Some ''new'',
                    body_phone := Some ''0199'', file_buffer := Some ''bad''\<rparr>"
              alice "''bad''" dev]
  by (simp add: ex_defs)

text \<open>
  C7, as amended: the handler assigns a field of the patch only under \<open>if (field)\<close>,
  so an empty string counts like a field that is not there. An update of an existing
  customer that carries no image file succeeds, and after any successful update the
  document stored under the id has: the phone of the patch when the patch has a
  non-empty phone; its old phone, email, username and password wherever the patch has
  no such field or an empty one; its old image when no file came with the request; its
  old id and creation time. So a patch with only a non-empty phone changes the phone
  and nothing else.
\<close>

theorem update_untouched_fields:
  assumes found: "findById st (params_id req) = Inr (Some c)"
  shows "(file_buffer req = None \<longrightarrow> status (fst (update w st req)) = 200)
     \<and> (status (fst (update w st req)) = 200 \<longrightarrow>
         (\<exists>c'. findById (snd (update w st req)) (params_id req) = Inr (Some c')
            \<and> (\<forall>ph. body_phone req = Some ph \<and> ph \<noteq> [] \<longrightarrow> phone c' = Some ph)
            \<and> (\<not> present (body_phone req) \<longrightarrow> phone c' = phone c)
            \<and> (\<not> present (body_email req) \<longrightarrow> email c' = email c)
            \<and> (\<not> present (body_username req) \<longrightarrow> username c' = username c)
            \<and> (\<not> present (body_password req) \<longrightarrow> password c' = password c)
            \<and> (file_buffer req = None \<longrightarrow> image c' = image c)
            \<and> cid c' = cid c \<and> createdAt c' = createdAt c))"
proof (intro conjI impI)
  assume "file_buffer req = None"
  then show "status (fst (update w st req)) = 200"
    by (simp add: update_no_file [OF found] update_reply_def)
next
  assume "status (fst (update w st req)) = 200"
  from update_stored [OF found this] obtain c' where
    c': "findById (snd (update w st req)) (params_id req) = Inr (Some c')"
      "cid c' = cid c" "createdAt c' = createdAt c"
      "email c' = email (apply_patch w req c)" "username c' = username (apply_patch w req c)"
      "password c' = password (apply_patch w req c)" "phone c' = phone (apply_patch w req c)"
      "file_buffer req = None \<longrightarrow> image c' = image c"
    by (elim exE conjE) (rule that)
  show "\<exists>c'. findById (snd (update w st req)) (params_id req) = Inr (Some c')
            \<and> (\<forall>ph. body_phone req = Some ph \<and> ph \<noteq> [] \<longrightarrow> phone c' = Some ph)
            \<and> (\<not> present (body_phone req) \<longrightarrow> phone c' = phone c)
            \<and> (\<not> present (body_email req) \<longrightarrow> email c' = email c)
            \<and> (\<not> present (body_username req) \<longrightarrow> username c' = username c)
            \<and> (\<not> present (body_password req) \<longrightarrow> password c' = password c)
            \<and> (file_buffer req = None \<longrightarrow> image c' = image c)
            \<and> cid c' = cid c \<and> createdAt c' = createdAt c"
  proof (intro exI [of _ c'] conjI allI impI)
    show "findById (snd (update w st req)) (params_id req) = Inr (Some c')" by (rule c'(1))
  next
    fix ph assume "body_phone req = Some ph \<and> ph \<noteq> []"
    then show "phone c' = Some ph" by (simp add: c'(7) phone_apply_patch)
  next
    assume "\<not> present (body_phone req)"
    then show "phone c' = phone c" by (simp add: c'(7) phone_apply_patch)
  next
    assume "\<not> present (body_email req)"
    then show "email c' = email c" by (simp add: c'(4) email_apply_patch)
  next
    assume "\<not> present (body_username req)"
    then show "username c' = username c" by (simp add: c'(5) username_apply_patch)
  next
    assume "\<not> present (body_password req)"
    then show "password c' = password c" by (simp add: c'(6) password_apply_patch)
  next
    assume "file_buffer req = None"
    with c'(8) show "image c' = image c" by simp
  next
    show "cid c' = cid c" by (rule c'(2))
  next
    show "createdAt c' = createdAt c" by (rule c'(3))
  qed
qed

theorem update_untouched_fields_witness:
  "findById shop (params_id (blank\<lparr>params_id := JId 0, body_phone := Some ''0199''\<rparr>))
     = Inr (Some alice)
   \<and> status (fst (update dev shop (blank\<lparr>params_id := JId 0, body_phone := Some ''0199''\<rparr>))) = 200
   \<and> findById (snd (update dev shop (blank\<lparr>params_id := JId 0, body_phone := Some ''0199''\<rparr>)))
        (JId 0) = Inr (Some (alice\<lparr>phone := Some ''0199''\<rparr>))
   \<and> findById (snd (update dev shop (blank\<lparr>params_id := JId 0, body_phone := Some ''0199''\<rparr>)))
        (JId 1) = Inr (Some bob)"
  using update_untouched_fields
          [of shop "blank\<lparr>params_id := JId 0, body_phone := Some ''0199''\<rparr>" alice dev]
  by (simp add: ex_defs update_def apply_patch_def update_reply_def save_def Let_def)

text \<open>
  C7, as written, fails for a patch whose only field is an empty phone: the update of
  alice answers 200, and her stored phone is still \<open>0100\<close>, not the empty string of
  the patch.
\<close>

theorem update_empty_phone_counterexample:
  "findById shop (params_id (blank\<lparr>params_id := JId 0, body_phone := Some ''''\<rparr>)) = Inr (Some alice)
   \<and> body_phone (blank\<lparr>params_id := JId 0, body_phone := Some ''''\<rparr>) = Some ''''
   \<and> body_email (blank\<lparr>params_id := JId 0, body_phone := Some ''''\<rparr>) = None
   \<and> body_username (blank\<lparr>params_id := JId 0, body_phone := Some ''''\<rparr>) = None
   \<and> body_password (blank\<lparr>params_id := JId 0, body_phone := Some ''''\<rparr>) = None
   \<and> file_buffer (blank\<lparr>params_id := JId 0, body_phone := Some ''''\<rparr>) = None
   \<and> update dev shop (blank\<lparr>params_id := JId 0, body_phone := Some ''''\<rparr>)
       = (update_reply alice, shop)
   \<and> status (update_reply alice) = 200
   \<and> findById shop (JId 0) = Inr (Some alice)
   \<and> phone alice = Some ''0100''
   \<and> phone alice \<noteq> Some ''''"
  by (simp add: eval_defs ex_defs)

text \<open>
  C8: a registration with non-empty email, username and password is answered 409 and
  creates nothing whenever some customer has the same email or the same username; the
  handler decides this with one query over both fields.
\<close>

theorem register_conflict:
  assumes "body_email req = Some e" "e \<noteq> []" "body_username req = Some u" "u \<noteq> []"
    "present (body_password req)"
    and "\<exists>c\<in>set (docs st). email c = e \<or> username c = u"
  shows "register w st req = (\<lparr>status = 409, body = Message ''Customer already exists''\<rparr>, st)"
proof -
  from assms(5) obtain p where p: "body_password req = Some p" "p \<noteq> []"
    by (cases "body_password req") auto
  from find_some_match [OF assms(6)]
  obtain ex where "findOne (\<lambda>c. email c = e \<or> username c = u) st = Some ex"
    by (auto simp: findOne_def)
  with assms p show ?thesis
    by (simp add: register_def)
qed

theorem register_conflict_witness:
  "register dev shop (blank\<lparr>body_email := Some ''new@x.io'', body_username := Some ''bob'',
                             body_password := Some ''pw''\<rparr>)
     = (\<lparr>status = 409, body = Message ''Customer already exists''\<rparr>, shop)
   \<and> register dev shop (blank\<lparr>body_email := Some ''a@x.io'', body_username := Some ''carol'',
                             body_password := Some ''pw''\<rparr>)
     = (\<lparr>status = 409, body = Message ''Customer already exists''\<rparr>, shop)"
  using register_conflict
          [of "blank\<lparr>body_email := Some ''new@x.io'', body_username := Some ''bob'',
                     body_password := Some ''pw''\<rparr>" "''new@x.io''" "''bob''" shop dev]
        register_conflict
          [of "blank\<lparr>body_email := Some ''a@x.io'', body_username := Some ''carol'',
                     body_password := Some ''pw''\<rparr>" "''a@x.io''" "''carol''" shop dev]
  by (simp add: blank_def shop_def alice_def bob_def)



text \<open>
  C10: whenever register changes the collection, it has appended one document, and the
  password stored in it is the bcrypt hash, with cost factor 10, of the password given,
  not that password. After a successful update whose patch has a (non-empty) password,
  the password stored under the id is the bcrypt hash, with cost factor 10, of it.
\<close>

theorem password_written_as_hash:
  "(snd (register w st req) \<noteq> st \<longrightarrow>
      (\<exists>p new. body_password req = Some p \<and> p \<noteq> []
         \<and> docs (snd (register w st req)) = docs st @ [new]
         \<and> password new = bcrypt_hash (salt w) p SALT_ROUNDS
         \<and> password new = Bcrypt 10 (salt w) p \<and> password new \<noteq> Raw p))
   \<and> (findById st (params_id req2) = Inr (Some c) \<and> status (fst (update w st req2)) = 200
        \<and> body_password req2 = Some p' \<and> p' \<noteq> [] \<longrightarrow>
      (\<exists>c'. findById (snd (update w st req2)) (params_id req2) = Inr (Some c')
         \<and> password c' = bcrypt_hash (salt w) p' SALT_ROUNDS
         \<and> password c' = Bcrypt 10 (salt w) p' \<and> password c' \<noteq> Raw p'))"
proof (intro conjI impI)
  assume changed: "snd (register w st req) \<noteq> st"
  with register_store [of w st req] obtain e u p where
    h: "body_password req = Some p" "p \<noteq> []"
       "snd (register w st req)
          = \<lparr>docs = docs st @ [\<lparr>cid = next_id st, email = e, username = u,
                            password = bcrypt_hash (salt w) p SALT_ROUNDS, phone = None,
                            image = None, createdAt = now w\<rparr>],
             next_id = Suc (next_id st)\<rparr>"
    by auto
  let ?new = "\<lparr>cid = next_id st, email = e, username = u,
                password = bcrypt_hash (salt w) p SALT_ROUNDS, phone = None,
                image = None, createdAt = now w\<rparr>"
  show "\<exists>p new. body_password req = Some p \<and> p \<noteq> []
         \<and> docs (snd (register w st req)) = docs st @ [new]
         \<and> password new = bcrypt_hash (salt w) p SALT_ROUNDS
         \<and> password new = Bcrypt 10 (salt w) p \<and> password new \<noteq> Raw p"
    by (intro exI [of _ p] exI [of _ ?new])
       (simp add: h bcrypt_hash_def SALT_ROUNDS_def)
next
  assume a: "findById st (params_id req2) = Inr (Some c) \<and> status (fst (update w st req2)) = 200
        \<and> body_password req2 = Some p' \<and> p' \<noteq> []"
  then have found: "findById st (params_id req2) = Inr (Some c)"
    and ok: "status (fst (update w st req2)) = 200"
    and pw: "body_password req2 = Some p'" "p' \<noteq> []"
    by simp_all
  from update_stored [OF found ok] obtain c' where
    c': "findById (snd (update w st req2)) (params_id req2) = Inr (Some c')"
        "password c' = password (apply_patch w req2 c)"
    by (elim exE conjE) (rule that)
  from pw have "password (apply_patch w req2 c) = bcrypt_hash (salt w) p' SALT_ROUNDS"
    by (simp add: password_apply_patch)
  with c' show "\<exists>c'. findById (snd (update w st req2)) (params_id req2) = Inr (Some c')
         \<and> password c' = bcrypt_hash (salt w) p' SALT_ROUNDS
         \<and> password c' = Bcrypt 10 (salt w) p' \<and> password c' \<noteq> Raw p'"
    by (intro exI [of _ c']) (simp add: bcrypt_hash_def SALT_ROUNDS_def)
qed

theorem password_written_as_hash_witness:
  "snd (register dev shop carol_req) \<noteq> shop
   \<and> docs (snd (register dev shop carol_req)) = docs shop @ [carol]
   \<and> password carol = Bcrypt 10 ''NaCl'' ''pw''
   \<and> findById shop (params_id (blank\<lparr>params_id := JId 1, body_password := Some ''hammer''\<rparr>))
       = Inr (Some bob)
   \<and> status (fst (update dev shop (blank\<lparr>params_id := JId 1, body_password := Some ''hammer''\<rparr>))) = 200
   \<and> findById (snd (update dev shop (blank\<lparr>params_id := JId 1, body_password := Some ''hammer''\<rparr>)))
        (JId 1) = Inr (Some (bob\<lparr>password := Bcrypt 10 ''NaCl'' ''hammer''\<rparr>))"
  using password_written_as_hash [of dev shop carol_req "blank\<lparr>params_id := JId 1, body_password := Some ''hammer''\<rparr>"
             bob "''hammer''"]
  by (simp add: eval_defs ex_defs)

end
